theory Spec2Isabelle
  imports Complex_Main "HOL-Library.Sublist"
begin

section \<open>The 24-hour IV fluid and electrolyte calculator (iv_fluid_app.py)\<close>

text \<open>
  The program reads fourteen sidebar widgets and, when the button is pressed, runs one
  calculation block. The block is modelled as the function \<open>generate_plan\<close> from the
  widget values (the record \<open>patient_input\<close>, one field \<open>in_x\<close> for the global \<open>x\<close>) to the
  values the block computes.

  Numbers: the weight and the laboratory values are Python floats, modelled as \<open>real\<close>;
  rounding of the binary floating-point operations is not modelled. The age and the NPO
  duration are Python integers (their widgets have integer bounds), modelled as \<open>int\<close>.
  Python's \<open>min\<close> and \<open>max\<close> on two numbers return the same values as HOL's.
\<close>

subsection \<open>Helper functions\<close>

text \<open>\<open>estimate_tbw\<close> (lines 9 to 21): the gender is a string compared with \<open>"Male"\<close>.\<close>

definition estimate_tbw :: "real \<Rightarrow> string \<Rightarrow> bool \<Rightarrow> bool \<Rightarrow> real" where
  "estimate_tbw weight gender obese malnourished =
     (let base_fraction = (if gender = ''Male'' then 0.6 else 0.5);
          tbw = base_fraction * weight;
          tbw = (if obese then tbw * 0.85 else tbw);
          tbw = (if malnourished then tbw * 1.10 else tbw)
      in tbw)"

text \<open>\<open>calculate_maintenance\<close> (lines 23 to 31): the 4-2-1 rule, hourly and per 24 hours.\<close>

definition calculate_maintenance :: "real \<Rightarrow> real \<times> real" where
  "calculate_maintenance weight =
     (let m1 = min weight 10 * 4;
          m2 = min (max (weight - 10) 0) 10 * 2;
          m3 = max (weight - 20) 0 * 1;
          rate_h = m1 + m2 + m3
      in (rate_h, rate_h * 24))"

text \<open>\<open>calculate_deficit\<close> (lines 33 to 37).\<close>

definition calculate_deficit :: "real \<Rightarrow> int \<Rightarrow> real" where
  "calculate_deficit rate_h npo_hours = rate_h * of_int npo_hours"

text \<open>
  \<open>calculate_electrolyte_deficits\<close> (lines 39 to 49) has the parameters \<open>tbw\<close>, \<open>na\<close>,
  \<open>k\<close>, \<open>hco3\<close> and reads \<open>weight\<close> from the module's globals. The global is the first
  argument of the model, named \<open>g_weight\<close>.
\<close>

definition calculate_electrolyte_deficits ::
  "real \<Rightarrow> real \<Rightarrow> real \<Rightarrow> real \<Rightarrow> real \<Rightarrow> real \<times> real \<times> real" where
  "calculate_electrolyte_deficits g_weight tbw na k hco3 =
     (let na_def = max 0 (tbw * (140 - na));
          k_def = max 0 (0.4 * g_weight * (4.0 - k));
          hco3_def = max 0 (0.3 * g_weight * (24 - hco3))
      in (na_def, k_def, hco3_def))"

text \<open>The table \<open>fluid_composition\<close> (lines 52 to 57), a dict of dicts, in source order.\<close>

definition fluid_composition :: "(string \<times> (string \<times> real) list) list" where
  "fluid_composition =
     [(''Lactated Ringer's'', [(''Na'', 130), (''K'', 4), (''Cl'', 109), (''HCO3_pre'', 28)]),
      (''0.9% NaCl'', [(''Na'', 154), (''Cl'', 154)]),
      (''D5NS'', [(''Na'', 154), (''Cl'', 154), (''Glucose_g'', 50)]),
      (''D5LR'', [(''Na'', 130), (''K'', 4), (''Cl'', 109), (''HCO3_pre'', 28),
                  (''Glucose_g'', 50)])]"

subsection \<open>The widget values and the computed plan\<close>

record patient_input =
  in_age :: int
  in_gender :: string
  in_weight :: real
  in_obese :: bool
  in_malnourished :: bool
  in_npo_hours :: int
  in_serum_na :: real
  in_serum_k :: real
  in_serum_hco3 :: real
  in_blood_glucose :: real
  in_chf :: bool
  in_pediatric :: bool
  in_insulin_infusion :: bool
  in_long_npo :: bool

record fluid_plan =
  p_tbw :: real
  p_rate_h :: real
  p_maint_24 :: real
  p_deficit :: real
  p_total_24 :: real
  p_na_def :: real
  p_k_def :: real
  p_hco3_def :: real
  p_fluid :: string
  p_k_supplement :: string
  p_intake :: "(string \<times> real) list"
  p_order_dextrose :: bool
  p_order_kcl :: bool

datatype py_error = KeyError string

subsection \<open>The calculation block\<close>

text \<open>Python's \<open>a in b\<close> on two strings: \<open>a\<close> occurs in \<open>b\<close> as a contiguous run.\<close>

definition str_in :: "string \<Rightarrow> string \<Rightarrow> bool" where
  "str_in a b = sublist a b"

text \<open>
  Lines 93 to 101, the choice of the fluid, from the flags, the serum sodium and the
  deficit.
\<close>

definition determine_fluid :: "bool \<Rightarrow> bool \<Rightarrow> bool \<Rightarrow> bool \<Rightarrow> real \<Rightarrow> real \<Rightarrow> string" where
  "determine_fluid pediatric long_npo insulin_infusion malnourished serum_na deficit =
     (if pediatric then (if long_npo then ''D5LR'' else ''D5NS'')
      else
        (let fluid = (if serum_na < 130 \<or> deficit > 0 then ''0.9% NaCl''
                      else ''Lactated Ringer's'')
         in if (long_npo \<or> insulin_infusion \<or> malnourished) \<and> \<not> str_in ''D5'' fluid
            then (if str_in ''LR'' fluid then ''D5LR'' else ''D5NS'')
            else fluid))"

text \<open>Line 104, the potassium supplementation.\<close>

definition k_supplement_of :: "real \<Rightarrow> string" where
  "k_supplement_of serum_k =
     (if serum_k < 3.5 then ''Add KCl 20 mEq per L'' else ''No extra KCl'')"

text \<open>
  Lines 122 to 126: the composition of the chosen fluid is looked up (a missing key raises
  \<open>KeyError\<close>), and every listed component is scaled by the 24-hour maintenance volume in
  litres.
\<close>

definition maintenance_intake :: "string \<Rightarrow> real \<Rightarrow> py_error + (string \<times> real) list" where
  "maintenance_intake fluid maint_24 =
     (case map_of fluid_composition fluid of
        None \<Rightarrow> Inl (KeyError fluid)
      | Some composition \<Rightarrow>
          Inr (map (\<lambda>(key, val). (key, val * (maint_24 / 1000)))
                 (filter (\<lambda>(key, val).
                            key \<in> set [''Na'', ''K'', ''Cl'', ''HCO3_pre'', ''Glucose_g''])
                    composition)))"

text \<open>
  Lines 78 to 139. The formatted output is left out; of the order text (lines 135 to 139)
  the model keeps the two tests that decide which clauses are appended.
\<close>

definition generate_plan :: "patient_input \<Rightarrow> py_error + fluid_plan" where
  "generate_plan inp =
     (let tbw = estimate_tbw (in_weight inp) (in_gender inp) (in_obese inp) (in_malnourished inp);
          (rate_h, maint_24) = calculate_maintenance (in_weight inp);
          (rate_h, maint_24) =
             (if in_chf inp then (rate_h * 0.5, (rate_h * 0.5) * 24) else (rate_h, maint_24));
          deficit = calculate_deficit rate_h (in_npo_hours inp);
          total_24 = maint_24 + deficit;
          (na_def, k_def, hco3_def) =
             calculate_electrolyte_deficits (in_weight inp) tbw
               (in_serum_na inp) (in_serum_k inp) (in_serum_hco3 inp);
          fluid = determine_fluid (in_pediatric inp) (in_long_npo inp) (in_insulin_infusion inp)
                    (in_malnourished inp) (in_serum_na inp) deficit;
          k_supplement = k_supplement_of (in_serum_k inp)
      in case maintenance_intake fluid maint_24 of
           Inl e \<Rightarrow> Inl e
         | Inr intake \<Rightarrow>
             Inr \<lparr>p_tbw = tbw, p_rate_h = rate_h, p_maint_24 = maint_24,
                  p_deficit = deficit, p_total_24 = total_24,
                  p_na_def = na_def, p_k_def = k_def, p_hco3_def = hco3_def,
                  p_fluid = fluid, p_k_supplement = k_supplement, p_intake = intake,
                  p_order_dextrose = str_in ''D5'' fluid,
                  p_order_kcl = str_in ''KCl'' k_supplement\<rparr>)"

text \<open>The input of the specification's end-to-end example (the widgets' default values).\<close>

definition example_input :: patient_input where
  "example_input =
     \<lparr>in_age = 25, in_gender = ''Male'', in_weight = 110, in_obese = False, in_malnourished = False,
      in_npo_hours = 12, in_serum_na = 130, in_serum_k = 5, in_serum_hco3 = 22, in_blood_glucose = 100,
      in_chf = False, in_pediatric = False, in_insulin_infusion = False, in_long_npo = False\<rparr>"

definition chf_input :: patient_input where
  "chf_input = example_input\<lparr>in_chf := True\<rparr>"

definition high_na_input :: patient_input where
  "high_na_input = example_input\<lparr>in_serum_na := 145\<rparr>"

definition pediatric_input :: patient_input where
  "pediatric_input = example_input\<lparr>in_pediatric := True\<rparr>"

definition pediatric_long_npo_input :: patient_input where
  "pediatric_long_npo_input = example_input\<lparr>in_pediatric := True, in_long_npo := True\<rparr>"

definition insulin_lr_input :: patient_input where
  "insulin_lr_input =
     example_input\<lparr>in_npo_hours := 0, in_serum_na := 135, in_insulin_infusion := True\<rparr>"

definition low_k_input :: patient_input where
  "low_k_input = example_input\<lparr>in_serum_k := 3\<rparr>"

definition zero_weight_input :: patient_input where
  "zero_weight_input = example_input\<lparr>in_weight := 0\<rparr>"

definition lr_input :: patient_input where
  "lr_input = example_input\<lparr>in_npo_hours := 0, in_serum_na := 135\<rparr>"

section \<open>Properties\<close>

subsection \<open>Substring tests on the four fluid names\<close>

lemma str_in_D5 [simp]:
  "str_in ''D5'' ''0.9% NaCl'' = False"
  "str_in ''D5'' ''Lactated Ringer's'' = False"
  "str_in ''D5'' ''D5NS'' = True"
  "str_in ''D5'' ''D5LR'' = True"
  by (simp_all add: str_in_def sublist_Cons_right)

lemma str_in_LR [simp]:
  "str_in ''LR'' ''0.9% NaCl'' = False"
  "str_in ''LR'' ''Lactated Ringer's'' = False"
  by (simp_all add: str_in_def sublist_Cons_right)

lemma str_in_KCl [simp]:
  "str_in ''KCl'' ''Add KCl 20 mEq per L'' = True"
  "str_in ''KCl'' ''No extra KCl'' = True"
  by (simp_all add: str_in_def sublist_Cons_right)

subsection \<open>The chosen fluid and its composition\<close>

text \<open>The fluid is always one of the four keys of the table, so the lookup never raises.\<close>

lemma determine_fluid_range:
  "determine_fluid ped lnpo ins mal na d
     \<in> {''Lactated Ringer's'', ''0.9% NaCl'', ''D5NS'', ''D5LR''}"
  by (simp add: determine_fluid_def Let_def)

lemma maintenance_intake_Inr:
  assumes "fluid \<in> {''Lactated Ringer's'', ''0.9% NaCl'', ''D5NS'', ''D5LR''}"
  shows "\<exists>intake. maintenance_intake fluid v = Inr intake"
  using assms by (auto simp add: maintenance_intake_def fluid_composition_def)

lemma maintenance_intake_values:
  "maintenance_intake ''Lactated Ringer's'' v =
     Inr [(''Na'', 130 * (v / 1000)), (''K'', 4 * (v / 1000)), (''Cl'', 109 * (v / 1000)),
          (''HCO3_pre'', 28 * (v / 1000))]"
  "maintenance_intake ''0.9% NaCl'' v = Inr [(''Na'', 154 * (v / 1000)), (''Cl'', 154 * (v / 1000))]"
  "maintenance_intake ''D5NS'' v =
     Inr [(''Na'', 154 * (v / 1000)), (''Cl'', 154 * (v / 1000)), (''Glucose_g'', 50 * (v / 1000))]"
  "maintenance_intake ''D5LR'' v =
     Inr [(''Na'', 130 * (v / 1000)), (''K'', 4 * (v / 1000)), (''Cl'', 109 * (v / 1000)),
          (''HCO3_pre'', 28 * (v / 1000)), (''Glucose_g'', 50 * (v / 1000))]"
  by (simp_all add: maintenance_intake_def fluid_composition_def)

lemma determine_fluid_adult:
  "determine_fluid False lnpo ins mal na d =
     (if lnpo \<or> ins \<or> mal then ''D5NS''
      else if na < 130 \<or> d > 0 then ''0.9% NaCl'' else ''Lactated Ringer's'')"
  by (simp add: determine_fluid_def Let_def)

lemma calculate_maintenance_pos: "0 < w \<Longrightarrow> 0 < fst (calculate_maintenance w)"
  by (simp add: calculate_maintenance_def Let_def min_def max_def)

lemma estimate_tbw_nonneg: "0 \<le> w \<Longrightarrow> 0 \<le> estimate_tbw w g ob mal"
  by (simp add: estimate_tbw_def Let_def)

subsection \<open>The plan in closed form\<close>

lemma generate_plan_Inr:
  assumes r: "r = (if in_chf inp then fst (calculate_maintenance (in_weight inp)) * 0.5
                   else fst (calculate_maintenance (in_weight inp)))"
    and m: "m = (if in_chf inp then r * 24 else snd (calculate_maintenance (in_weight inp)))"
    and d: "d = calculate_deficit r (in_npo_hours inp)"
    and t: "t = estimate_tbw (in_weight inp) (in_gender inp) (in_obese inp) (in_malnourished inp)"
    and e: "e = calculate_electrolyte_deficits (in_weight inp) t
                  (in_serum_na inp) (in_serum_k inp) (in_serum_hco3 inp)"
    and f: "f = determine_fluid (in_pediatric inp) (in_long_npo inp) (in_insulin_infusion inp)
                  (in_malnourished inp) (in_serum_na inp) d"
    and k: "k = k_supplement_of (in_serum_k inp)"
  shows "\<exists>intake. maintenance_intake f m = Inr intake \<and>
           generate_plan inp =
             Inr \<lparr>p_tbw = t, p_rate_h = r, p_maint_24 = m, p_deficit = d, p_total_24 = m + d,
                  p_na_def = fst e, p_k_def = fst (snd e), p_hco3_def = snd (snd e),
                  p_fluid = f, p_k_supplement = k, p_intake = intake,
                  p_order_dextrose = str_in ''D5'' f, p_order_kcl = str_in ''KCl'' k\<rparr>"
proof -
  have "f \<in> {''Lactated Ringer's'', ''0.9% NaCl'', ''D5NS'', ''D5LR''}"
    unfolding f by (rule determine_fluid_range)
  then obtain intake where i: "maintenance_intake f m = Inr intake"
    using maintenance_intake_Inr by blast
  have "generate_plan inp =
          Inr \<lparr>p_tbw = t, p_rate_h = r, p_maint_24 = m, p_deficit = d, p_total_24 = m + d,
               p_na_def = fst e, p_k_def = fst (snd e), p_hco3_def = snd (snd e),
               p_fluid = f, p_k_supplement = k, p_intake = intake,
               p_order_dextrose = str_in ''D5'' f, p_order_kcl = str_in ''KCl'' k\<rparr>"
    using i unfolding generate_plan_def Let_def r m d t e f k
    by (cases "in_chf inp") (simp_all add: case_prod_beta)
  with i show ?thesis by blast
qed

subsection \<open>The end-to-end example\<close>

text \<open>
  C1. For the input weight 110 kg, Male, not obese, not malnourished, 12 NPO hours, serum
  sodium 130, potassium 5, bicarbonate 22 and no CHF, pediatric, insulin or prolonged-NPO
  flag, the block computes TBW 66 L, the rate 150 mL/h, 3600 mL of maintenance in 24 hours,
  a deficit of 1800 mL, 5400 mL in total, the deficits 660, 0 and 66 mEq, the fluid
  "0.9% NaCl" and the supplementation string "No extra KCl". The theorem gives the whole
  plan, the intake of the 3.6 litres of saline included.
\<close>

theorem example_plan:
  "generate_plan example_input =
     Inr \<lparr>p_tbw = 66, p_rate_h = 150, p_maint_24 = 3600, p_deficit = 1800,
          p_total_24 = 5400, p_na_def = 660, p_k_def = 0, p_hco3_def = 66,
          p_fluid = ''0.9% NaCl'', p_k_supplement = ''No extra KCl'',
          p_intake = [(''Na'', 554.4), (''Cl'', 554.4)],
          p_order_dextrose = False, p_order_kcl = True\<rparr>"
  by (simp add: generate_plan_def example_input_def estimate_tbw_def
      calculate_maintenance_def calculate_deficit_def calculate_electrolyte_deficits_def
      determine_fluid_def k_supplement_of_def maintenance_intake_values Let_def)

subsection \<open>Maintenance: the 4-2-1 rule\<close>

text \<open>
  C2. For every weight \<open>w > 0\<close> the hourly rate of \<open>calculate_maintenance\<close> is \<open>4w\<close> up to
  10 kg, \<open>40 + 2(w - 10)\<close> above 10 and up to 20 kg, and \<open>40 + 20 + (w - 20)\<close> above 20 kg;
  the second component is the rate times 24.
\<close>

theorem calculate_maintenance_421:
  assumes "0 < w"
  shows "(w \<le> 10 \<longrightarrow> fst (calculate_maintenance w) = 4 * w) \<and>
         (10 < w \<and> w \<le> 20 \<longrightarrow> fst (calculate_maintenance w) = 40 + 2 * (w - 10)) \<and>
         (20 < w \<longrightarrow> fst (calculate_maintenance w) = 40 + 20 + (w - 20)) \<and>
         snd (calculate_maintenance w) = fst (calculate_maintenance w) * 24"
  by (simp add: calculate_maintenance_def Let_def min_def max_def)

theorem calculate_maintenance_421_witness:
  "(0::real) < 5 \<and> fst (calculate_maintenance 5) = 20 \<and> snd (calculate_maintenance 5) = 480 \<and>
   (0::real) < 15 \<and> fst (calculate_maintenance 15) = 50 \<and>
   (0::real) < 25 \<and> fst (calculate_maintenance 25) = 65"
  using calculate_maintenance_421 [of 5] calculate_maintenance_421 [of 15]
    calculate_maintenance_421 [of 25]
  by simp

subsection \<open>Total body water\<close>

text \<open>
  C3. For every weight \<open>w > 0\<close>, gender and flags, \<open>estimate_tbw\<close> returns the base fraction
  (0.6 for "Male", 0.5 otherwise) times \<open>w\<close>, times 0.85 if obese, then times 1.10 if
  malnourished; the result is not negative; and for 110 kg, Male, neither flag, it is 66.
\<close>

theorem estimate_tbw_formula:
  assumes "0 < w"
  shows "estimate_tbw w g ob mal =
           (if g = ''Male'' then 0.6 else 0.5) * w * (if ob then 0.85 else 1)
             * (if mal then 1.10 else 1) \<and>
         0 \<le> estimate_tbw w g ob mal \<and>
         estimate_tbw 110 ''Male'' False False = 66"
  using assms by (simp add: estimate_tbw_def Let_def)

theorem estimate_tbw_formula_witness:
  "(0::real) < 70 \<and> estimate_tbw 70 ''Female'' True True = 0.5 * 70 * 0.85 * 1.10 \<and>
   0 \<le> estimate_tbw 70 ''Female'' True True"
  using estimate_tbw_formula [of 70 "''Female''" True True]
  by simp

subsection \<open>CHF restriction, deficit and total\<close>

text \<open>
  C4. For every input the block returns a plan. With the CHF flag the hourly rate is half
  the rate of the 4-2-1 rule, without it the rate of the rule itself; in both cases the
  24-hour maintenance volume is that rate times 24, the deficit is that rate times the NPO
  hours (no floor, no cap) and the total is maintenance plus deficit.
\<close>

theorem chf_halves_rate:
  "\<exists>p. generate_plan inp = Inr p \<and>
     (in_chf inp \<longrightarrow> p_rate_h p = fst (calculate_maintenance (in_weight inp)) / 2) \<and>
     (\<not> in_chf inp \<longrightarrow> p_rate_h p = fst (calculate_maintenance (in_weight inp))) \<and>
     p_maint_24 p = p_rate_h p * 24 \<and>
     p_deficit p = p_rate_h p * of_int (in_npo_hours inp) \<and>
     p_total_24 p = p_maint_24 p + p_deficit p"
  using generate_plan_Inr [OF refl refl refl refl refl refl refl, of inp]
  by (auto simp add: calculate_deficit_def calculate_maintenance_def Let_def)

theorem chf_halves_rate_witness:
  "in_chf chf_input \<and> \<not> isl (generate_plan chf_input) \<and>
   p_rate_h (projr (generate_plan chf_input)) = 75 \<and>
   p_maint_24 (projr (generate_plan chf_input)) = 1800 \<and>
   p_deficit (projr (generate_plan chf_input)) = 900 \<and>
   p_total_24 (projr (generate_plan chf_input)) = 2700 \<and>
   \<not> in_chf example_input \<and> \<not> isl (generate_plan example_input) \<and>
   p_rate_h (projr (generate_plan example_input)) = 150"
  using chf_halves_rate [of chf_input] chf_halves_rate [of example_input]
  by (auto simp add: chf_input_def example_input_def calculate_maintenance_def Let_def)

subsection \<open>Electrolyte deficits\<close>

text \<open>
  C5. \<open>calculate_electrolyte_deficits\<close> returns \<open>max(0, TBW (140 - Na))\<close>,
  \<open>max(0, 0.4 weight (4 - K))\<close> and \<open>max(0, 0.3 weight (24 - HCO3))\<close>, so none of the three
  is negative; for a TBW that is not negative, the sodium deficit is 0 whenever the serum
  sodium exceeds 140. In the block the weight it reads is the patient weight that
  \<open>calculate_maintenance\<close> and \<open>estimate_tbw\<close> receive, and the TBW is not negative as soon as
  that weight is not (the weight widget's lower bound is 0).
\<close>

theorem electrolyte_deficits:
  "calculate_electrolyte_deficits w tbw na k hco3 =
     (max 0 (tbw * (140 - na)), max 0 (0.4 * w * (4.0 - k)), max 0 (0.3 * w * (24 - hco3))) \<and>
   0 \<le> fst (calculate_electrolyte_deficits w tbw na k hco3) \<and>
   0 \<le> fst (snd (calculate_electrolyte_deficits w tbw na k hco3)) \<and>
   0 \<le> snd (snd (calculate_electrolyte_deficits w tbw na k hco3)) \<and>
   (0 \<le> tbw \<longrightarrow> 140 < na \<longrightarrow> fst (calculate_electrolyte_deficits w tbw na k hco3) = 0) \<and>
   (\<exists>p. generate_plan inp = Inr p \<and>
      p_na_def p = max 0 (p_tbw p * (140 - in_serum_na inp)) \<and>
      p_k_def p = max 0 (0.4 * in_weight inp * (4.0 - in_serum_k inp)) \<and>
      p_hco3_def p = max 0 (0.3 * in_weight inp * (24 - in_serum_hco3 inp)) \<and>
      (0 \<le> in_weight inp \<longrightarrow> 140 < in_serum_na inp \<longrightarrow> p_na_def p = 0))"
proof -
  have z: "max 0 (t * (140 - n)) = 0" if "0 \<le> t" "140 < n" for t n :: real
  proof -
    have "t * (140 - n) \<le> 0" using that by (simp add: mult_nonneg_nonpos)
    then show ?thesis by simp
  qed
  have fn: "calculate_electrolyte_deficits w tbw na k hco3 =
     (max 0 (tbw * (140 - na)), max 0 (0.4 * w * (4.0 - k)), max 0 (0.3 * w * (24 - hco3)))"
    for w tbw na k hco3
    by (simp add: calculate_electrolyte_deficits_def Let_def)
  have plan: "\<exists>p. generate_plan inp = Inr p \<and>
      p_na_def p = max 0 (p_tbw p * (140 - in_serum_na inp)) \<and>
      p_k_def p = max 0 (0.4 * in_weight inp * (4.0 - in_serum_k inp)) \<and>
      p_hco3_def p = max 0 (0.3 * in_weight inp * (24 - in_serum_hco3 inp)) \<and>
      (0 \<le> in_weight inp \<longrightarrow> 140 < in_serum_na inp \<longrightarrow> p_na_def p = 0)"
    using generate_plan_Inr [OF refl refl refl refl refl refl refl, of inp]
    by (auto simp add: fn z estimate_tbw_nonneg)
  show ?thesis
    using plan by (simp add: fn z)
qed

theorem electrolyte_deficits_witness:
  "(0::real) \<le> 66 \<and> (140::real) < 145 \<and>
   fst (calculate_electrolyte_deficits 110 66 145 5 22) = 0 \<and>
   0 \<le> in_weight high_na_input \<and> 140 < in_serum_na high_na_input \<and>
   \<not> isl (generate_plan high_na_input) \<and>
   p_na_def (projr (generate_plan high_na_input)) = 0 \<and>
   p_hco3_def (projr (generate_plan high_na_input)) = 66"
  using electrolyte_deficits [of 110 66 145 5 22 high_na_input]
  by (auto simp add: high_na_input_def example_input_def)

subsection \<open>The pediatric branch\<close>

text \<open>
  C6. For every input with the pediatric flag, whatever the other fields, the fluid is
  "D5LR" with the prolonged-NPO flag and "D5NS" without it; its name contains "D5" and its
  intake lists glucose.
\<close>

theorem pediatric_fluid:
  assumes "in_pediatric inp"
  shows "\<exists>p. generate_plan inp = Inr p \<and>
           (in_long_npo inp \<longrightarrow> p_fluid p = ''D5LR'') \<and>
           (\<not> in_long_npo inp \<longrightarrow> p_fluid p = ''D5NS'') \<and>
           str_in ''D5'' (p_fluid p) \<and> p_order_dextrose p \<and>
           ''Glucose_g'' \<in> fst ` set (p_intake p)"
  using assms generate_plan_Inr [OF refl refl refl refl refl refl refl, of inp]
  by (cases "in_long_npo inp") (auto simp add: determine_fluid_def maintenance_intake_values)

theorem pediatric_fluid_witness:
  "in_pediatric pediatric_input \<and> \<not> in_long_npo pediatric_input \<and>
   \<not> isl (generate_plan pediatric_input) \<and>
   p_fluid (projr (generate_plan pediatric_input)) = ''D5NS'' \<and>
   in_pediatric pediatric_long_npo_input \<and> in_long_npo pediatric_long_npo_input \<and>
   \<not> isl (generate_plan pediatric_long_npo_input) \<and>
   p_fluid (projr (generate_plan pediatric_long_npo_input)) = ''D5LR''"
  using pediatric_fluid [of pediatric_input] pediatric_fluid [of pediatric_long_npo_input]
  by (auto simp add: pediatric_input_def pediatric_long_npo_input_def example_input_def)

subsection \<open>The adult branch and the dextrose escalation\<close>

text \<open>
  C7. The adult branch takes "0.9% NaCl" for a serum sodium below 130 or a positive
  deficit and "Lactated Ringer's" otherwise, and the escalation is meant to turn the
  latter into "D5LR". The test of line 101 looks for "LR" in the fluid's name, and the name
  "Lactated Ringer's" does not contain it. The theorem evaluates the block for an adult
  with serum sodium 135, no NPO hours (deficit 0) and an insulin infusion: the base fluid
  is "Lactated Ringer's" and the escalated fluid is "D5NS", with the saline's sodium and
  chloride in the intake.
\<close>

theorem adult_escalation_from_lr:
  "str_in ''LR'' ''Lactated Ringer's'' = False \<and>
   determine_fluid False False True False 135 0 = ''D5NS'' \<and>
   generate_plan insulin_lr_input =
     Inr \<lparr>p_tbw = 66, p_rate_h = 150, p_maint_24 = 3600, p_deficit = 0,
          p_total_24 = 3600, p_na_def = 330, p_k_def = 0, p_hco3_def = 66,
          p_fluid = ''D5NS'', p_k_supplement = ''No extra KCl'',
          p_intake = [(''Na'', 554.4), (''Cl'', 554.4), (''Glucose_g'', 180)],
          p_order_dextrose = True, p_order_kcl = True\<rparr>"
  by (simp add: generate_plan_def insulin_lr_input_def example_input_def estimate_tbw_def
      calculate_maintenance_def calculate_deficit_def calculate_electrolyte_deficits_def
      determine_fluid_def k_supplement_of_def maintenance_intake_values Let_def)

subsection \<open>Potassium supplementation\<close>

text \<open>
  C8. For every input the supplementation string of line 104 is "Add KCl 20 mEq per L"
  exactly when the serum potassium is below 3.5, and "No extra KCl" otherwise (so at 3.5
  itself); it is a function of the serum potassium alone, outside both fluid branches.
\<close>

theorem k_supplement_rule:
  "\<exists>p. generate_plan inp = Inr p \<and>
     p_k_supplement p = k_supplement_of (in_serum_k inp) \<and>
     (p_k_supplement p = ''Add KCl 20 mEq per L'' \<longleftrightarrow> in_serum_k inp < 3.5) \<and>
     (p_k_supplement p = ''No extra KCl'' \<longleftrightarrow> \<not> in_serum_k inp < 3.5) \<and>
     k_supplement_of 3.5 = ''No extra KCl'' \<and>
     k_supplement_of 3.0 = ''Add KCl 20 mEq per L'' \<and>
     k_supplement_of 4.0 = ''No extra KCl''"
  using generate_plan_Inr [OF refl refl refl refl refl refl refl, of inp]
  by (auto simp add: k_supplement_of_def)

theorem k_supplement_rule_witness:
  "in_serum_k low_k_input < 3.5 \<and> \<not> isl (generate_plan low_k_input) \<and>
   p_k_supplement (projr (generate_plan low_k_input)) = ''Add KCl 20 mEq per L'' \<and>
   \<not> in_serum_k example_input < 3.5 \<and>
   p_k_supplement (projr (generate_plan example_input)) = ''No extra KCl''"
  using k_supplement_rule [of low_k_input] k_supplement_rule [of example_input]
  by (auto simp add: low_k_input_def example_input_def)

text \<open>
  The order text (lines 138 and 139) does not compare the strings: it looks for "KCl" in
  the supplementation string, and both strings contain it, so the clause on potassium
  chloride is appended for every input.
\<close>

lemma order_kcl_always: "\<exists>p. generate_plan inp = Inr p \<and> p_order_kcl p"
  using generate_plan_Inr [OF refl refl refl refl refl refl refl, of inp]
  by (auto simp add: k_supplement_of_def)

subsection \<open>Input validation\<close>

text \<open>
  The block checks none of its inputs. For the weight 0, which the weight widget accepts,
  it returns a plan, all of whose volumes are 0.
\<close>

theorem zero_weight_plan:
  "generate_plan zero_weight_input =
     Inr \<lparr>p_tbw = 0, p_rate_h = 0, p_maint_24 = 0, p_deficit = 0,
          p_total_24 = 0, p_na_def = 0, p_k_def = 0, p_hco3_def = 0,
          p_fluid = ''Lactated Ringer's'', p_k_supplement = ''No extra KCl'',
          p_intake = [(''Na'', 0), (''K'', 0), (''Cl'', 0), (''HCO3_pre'', 0)],
          p_order_dextrose = False, p_order_kcl = True\<rparr>"
  by (simp add: generate_plan_def zero_weight_input_def example_input_def estimate_tbw_def
      calculate_maintenance_def calculate_deficit_def calculate_electrolyte_deficits_def
      determine_fluid_def k_supplement_of_def maintenance_intake_values Let_def)

text \<open>
  C9. The block raises no error of its own and has no validation step: for
  every input, also with a weight or NPO duration that is not positive, it returns a plan
  with every field computed; the fluid is one of the four keys of the table, so the lookup
  of its composition succeeds and the intake is the one of that fluid.
\<close>

theorem generate_plan_total:
  "\<exists>p. generate_plan inp = Inr p \<and>
     p_fluid p \<in> {''Lactated Ringer's'', ''0.9% NaCl'', ''D5NS'', ''D5LR''} \<and>
     maintenance_intake (p_fluid p) (p_maint_24 p) = Inr (p_intake p)"
  using generate_plan_Inr [OF refl refl refl refl refl refl refl, of inp]
    determine_fluid_range
  by auto

subsection \<open>Adults with a deficit\<close>

text \<open>
  C10. For every non-pediatric input with a positive weight the hourly rate is positive;
  if the NPO hours are positive too, the deficit is positive and the fluid is "0.9% NaCl"
  or "D5NS", never "Lactated Ringer's" or "D5LR". With NPO hours that are not negative
  (the widget's lower bound), a fluid based on Ringer's lactate occurs only for 0 NPO
  hours.
\<close>

theorem adult_deficit_forces_saline:
  assumes "\<not> in_pediatric inp" and "0 < in_weight inp"
  shows "\<exists>p. generate_plan inp = Inr p \<and> 0 < p_rate_h p \<and>
           (0 < in_npo_hours inp \<longrightarrow>
              0 < p_deficit p \<and> p_fluid p \<in> {''0.9% NaCl'', ''D5NS''} \<and>
              p_fluid p \<noteq> ''Lactated Ringer's'' \<and> p_fluid p \<noteq> ''D5LR'') \<and>
           (0 \<le> in_npo_hours inp \<longrightarrow>
              p_fluid p \<in> {''Lactated Ringer's'', ''D5LR''} \<longrightarrow> in_npo_hours inp = 0)"
proof -
  define r where "r = (if in_chf inp then fst (calculate_maintenance (in_weight inp)) * 0.5
                       else fst (calculate_maintenance (in_weight inp)))"
  define d where "d = calculate_deficit r (in_npo_hours inp)"
  define f where "f = determine_fluid (in_pediatric inp) (in_long_npo inp)
                        (in_insulin_infusion inp) (in_malnourished inp) (in_serum_na inp) d"
  have r: "0 < r"
    using calculate_maintenance_pos [OF assms(2)] by (simp add: r_def)
  have d: "0 < d" if "0 < in_npo_hours inp"
    unfolding d_def calculate_deficit_def using r that by simp
  have f: "f = (if in_long_npo inp \<or> in_insulin_infusion inp \<or> in_malnourished inp
                then ''D5NS''
                else if in_serum_na inp < 130 \<or> d > 0 then ''0.9% NaCl''
                else ''Lactated Ringer's'')"
    unfolding f_def using assms(1) by (simp add: determine_fluid_adult)
  have saline: "f \<in> {''0.9% NaCl'', ''D5NS''}" if "0 < in_npo_hours inp"
    using d [OF that] by (simp add: f)
  have lr: "in_npo_hours inp = 0"
    if "0 \<le> in_npo_hours inp" and "f \<in> {''Lactated Ringer's'', ''D5LR''}"
  proof (rule ccontr)
    assume "in_npo_hours inp \<noteq> 0"
    with that(1) have "0 < in_npo_hours inp" by simp
    from saline [OF this] that(2) show False by auto
  qed
  from generate_plan_Inr [OF r_def refl d_def refl refl f_def refl]
  obtain p where p: "generate_plan inp = Inr p" "p_rate_h p = r" "p_deficit p = d"
    "p_fluid p = f"
    by auto
  have "0 < in_npo_hours inp \<longrightarrow>
          0 < p_deficit p \<and> p_fluid p \<in> {''0.9% NaCl'', ''D5NS''} \<and>
          p_fluid p \<noteq> ''Lactated Ringer's'' \<and> p_fluid p \<noteq> ''D5LR''"
    using d saline p by auto
  moreover have "0 \<le> in_npo_hours inp \<longrightarrow>
          p_fluid p \<in> {''Lactated Ringer's'', ''D5LR''} \<longrightarrow> in_npo_hours inp = 0"
    using lr p by simp
  ultimately show ?thesis
    using p r by blast
qed

theorem adult_deficit_forces_saline_witness:
  "\<not> in_pediatric example_input \<and> 0 < in_weight example_input \<and>
   0 < in_npo_hours example_input \<and>
   \<not> isl (generate_plan example_input) \<and>
   0 < p_deficit (projr (generate_plan example_input)) \<and>
   p_fluid (projr (generate_plan example_input)) \<in> {''0.9% NaCl'', ''D5NS''} \<and>
   \<not> in_pediatric lr_input \<and> 0 < in_weight lr_input \<and> 0 \<le> in_npo_hours lr_input \<and>
   p_fluid (projr (generate_plan lr_input)) = ''Lactated Ringer's'' \<and>
   in_npo_hours lr_input = 0"
proof -
  have a: "\<not> in_pediatric example_input" "0 < in_weight example_input"
    and b: "\<not> in_pediatric lr_input" "0 < in_weight lr_input"
    by (simp_all add: example_input_def lr_input_def)
  have lr: "generate_plan lr_input =
     Inr \<lparr>p_tbw = 66, p_rate_h = 150, p_maint_24 = 3600, p_deficit = 0,
          p_total_24 = 3600, p_na_def = 330, p_k_def = 0, p_hco3_def = 66,
          p_fluid = ''Lactated Ringer's'', p_k_supplement = ''No extra KCl'',
          p_intake = [(''Na'', 468), (''K'', 14.4), (''Cl'', 392.4), (''HCO3_pre'', 100.8)],
          p_order_dextrose = False, p_order_kcl = True\<rparr>"
    by (simp add: generate_plan_def lr_input_def example_input_def estimate_tbw_def
      calculate_maintenance_def calculate_deficit_def calculate_electrolyte_deficits_def
      determine_fluid_def k_supplement_of_def maintenance_intake_values Let_def)
  show ?thesis
    using adult_deficit_forces_saline [OF a] adult_deficit_forces_saline [OF b] lr
    by (auto simp add: example_input_def lr_input_def)
qed

end
